theory Spec2Isabelle
  imports Main
begin

section \<open>The parsed descriptor\<close>

text \<open>
  \<^verbatim>\<open>ET.fromstring\<close> returns the root \<^verbatim>\<open>Element\<close> of the document. An element has a
  tag, a dictionary of attributes and the list of its child elements in document order;
  comments, processing instructions and text play no part in the extraction. The
  attribute dictionary is kept as an association list read with \<open>map_of\<close>.
  Strings are byte strings: a character outside ASCII is its UTF-8 bytes.
\<close>

datatype xml = Element (tag: string) (attrib: "(string \<times> string) list") (children: "xml list")

text \<open>\<^verbatim>\<open>Element.get(key, default)\<close>.\<close>

definition elem_get :: "xml \<Rightarrow> string \<Rightarrow> string \<Rightarrow> string" where
  "elem_get e key dflt = (case map_of (attrib e) key of None \<Rightarrow> dflt | Some v \<Rightarrow> v)"

text \<open>\<^verbatim>\<open>Element.iter()\<close>: the element itself, then every element below it, in document order.\<close>

fun iter :: "xml \<Rightarrow> xml list" where
  "iter (Element t a cs) = Element t a cs # concat (map iter cs)"

text \<open>\<^verbatim>\<open>Element.find(tag)\<close>: the first direct child with that tag, or \<^verbatim>\<open>None\<close>.\<close>

definition elem_find :: "xml \<Rightarrow> string \<Rightarrow> xml option" where
  "elem_find e t = find (\<lambda>c. tag c = t) (children e)"

text \<open>
  \<^verbatim>\<open>root.findall(".//element[@type='point']")\<close> is evaluated by ElementPath as three
  selection steps over the list of context elements, starting from \<^verbatim>\<open>[root]\<close>:
  \<^item> \<^verbatim>\<open>.\<close> keeps the context element;
  \<^item> \<^verbatim>\<open>//element\<close> runs \<^verbatim>\<open>for e in elem.iter(tag): if e is not elem: yield e\<close>; the only
    element of \<^verbatim>\<open>elem.iter()\<close> that is \<^verbatim>\<open>elem\<close> is its first, so what remains is the
    traversal of the children;
  \<^item> \<^verbatim>\<open>[@type='point']\<close> keeps the elements with \<^verbatim>\<open>elem.get('type') == 'point'\<close>.
\<close>

definition select_self :: "xml list \<Rightarrow> xml list" where
  "select_self result = result"

definition select_descendant :: "string \<Rightarrow> xml list \<Rightarrow> xml list" where
  "select_descendant t result =
     concat (map (\<lambda>elem. filter (\<lambda>e. tag e = t) (concat (map iter (children elem)))) result)"

definition select_attribute :: "string \<Rightarrow> string \<Rightarrow> xml list \<Rightarrow> xml list" where
  "select_attribute key v result = filter (\<lambda>elem. map_of (attrib elem) key = Some v) result"

definition findall_points :: "xml \<Rightarrow> xml list" where
  "findall_points root =
     select_attribute ''type'' ''point'' (select_descendant ''element'' (select_self [root]))"

section \<open>The loop over the selected elements\<close>

text \<open>
  A point is the dictionary with three keys: the point name (the header written
  U+70B9 U+540D U+79F0), \<^verbatim>\<open>'x'\<close> and \<^verbatim>\<open>'y'\<close>. The
  coordinates are what the builtin \<^verbatim>\<open>float\<close> returns; the builtin is a parameter
  \<open>float\<close> of the model, \<open>None\<close> standing for \<^verbatim>\<open>ValueError\<close>, and its values have the
  type \<open>'f\<close>.
\<close>

record 'f point =
  point_name :: string
  point_x :: 'f
  point_y :: 'f

text \<open>The lines the program prints to standard output.\<close>

datatype message =
    CoordsWarning string string string  \<comment> \<open>label, x, y: the coordinates are not numbers\<close>
  | Saved nat string                    \<comment> \<open>number of points, output path\<close>
  | NoPoints                            \<comment> \<open>no point was found\<close>

text \<open>
  One round of the \<^verbatim>\<open>for point_element in point_elements\<close> loop, on the list
  \<^verbatim>\<open>points\<close> and the output printed so far.
\<close>

definition loop_body ::
  "(string \<Rightarrow> 'f option) \<Rightarrow> xml \<Rightarrow> 'f point list \<times> message list \<Rightarrow> 'f point list \<times> message list"
where
  "loop_body float point_element st =
     (let (points, out) = st;
          label = elem_get point_element ''label'' '''' in
      case elem_find point_element ''coords'' of
        None \<Rightarrow> (points, out)
      | Some coords \<Rightarrow>
          (let x = elem_get coords ''x'' '''';
               y = elem_get coords ''y'' '''' in
           if x \<noteq> '''' \<and> y \<noteq> '''' then
             (case float x of
                None \<Rightarrow> (points, out @ [CoordsWarning label x y])
              | Some x_float \<Rightarrow>
                  (case float y of
                     None \<Rightarrow> (points, out @ [CoordsWarning label x y])
                   | Some y_float \<Rightarrow>
                       (points @ [\<lparr>point_name = label, point_x = x_float, point_y = y_float\<rparr>],
                        out)))
           else (points, out)))"

fun loop ::
  "(string \<Rightarrow> 'f option) \<Rightarrow> xml list \<Rightarrow> 'f point list \<times> message list \<Rightarrow> 'f point list \<times> message list"
where
  "loop float [] st = st"
| "loop float (point_element # rest) st = loop float rest (loop_body float point_element st)"

section \<open>Writing the CSV file\<close>

text \<open>
  \<^verbatim>\<open>csv.DictWriter(csvfile, fieldnames=fieldnames)\<close> writes with the \<^verbatim>\<open>excel\<close> dialect:
  delimiter \<^verbatim>\<open>,\<close>, quote character \<^verbatim>\<open>"\<close>, \<^verbatim>\<open>doublequote\<close>, \<^verbatim>\<open>QUOTE_MINIMAL\<close>, no escape
  character, line terminator \<^verbatim>\<open>\r\n\<close>. A field is copied character by character; a
  delimiter, a quote character or a character of the line terminator marks the field as
  quoted, and a quote character is written twice.
\<close>

definition delimiter :: char where
  "delimiter = CHR '',''"

definition quotechar :: char where
  "quotechar = CHR 0x22"

definition lineterminator :: string where
  "lineterminator = [CHR 0x0D, CHR 0x0A]"

fun join_append_data :: "string \<Rightarrow> string \<times> bool" where
  "join_append_data [] = ([], False)"
| "join_append_data (c # cs) =
     (let (data, quoted) = join_append_data cs in
      if c = delimiter \<or> c = quotechar \<or> c \<in> set lineterminator
      then ((if c = quotechar then [quotechar, c] else [c]) @ data, True)
      else (c # data, quoted))"

definition join_append :: "string \<Rightarrow> string" where
  "join_append field =
     (let (data, quoted) = join_append_data field in
      if quoted then [quotechar] @ data @ [quotechar] else data)"

text \<open>The fields of a row, each after the first preceded by the delimiter.\<close>

fun join_fields :: "string list \<Rightarrow> string" where
  "join_fields [] = []"
| "join_fields [f] = join_append f"
| "join_fields (f # g # fs) = join_append f @ [delimiter] @ join_fields (g # fs)"

text \<open>\<^verbatim>\<open>writer.writerow(row)\<close> on the text written so far.\<close>

definition writerow :: "string list \<Rightarrow> string \<Rightarrow> string" where
  "writerow row csvfile = csvfile @ join_fields row @ lineterminator"

text \<open>
  The first field name is the three characters U+70B9 U+540D U+79F0, here in UTF-8.
\<close>

definition point_name_key :: string where
  "point_name_key =
     [CHR 0xE7, CHR 0x82, CHR 0xB9, CHR 0xE5, CHR 0x90, CHR 0x8D, CHR 0xE7, CHR 0xA7, CHR 0xB0]"

definition fieldnames :: "string list" where
  "fieldnames = [point_name_key, ''x'', ''y'']"

definition writeheader :: "string \<Rightarrow> string" where
  "writeheader csvfile = writerow fieldnames csvfile"

text \<open>
  \<^verbatim>\<open>DictWriter.writerow(point)\<close> takes the values in the order of the field names; a value
  that is not a string is written as \<^verbatim>\<open>str(value)\<close>. The builtin \<^verbatim>\<open>str\<close> on floats is
  the parameter \<open>str\<close>.
\<close>

definition dict_to_list :: "('f \<Rightarrow> string) \<Rightarrow> 'f point \<Rightarrow> string list" where
  "dict_to_list str p = [point_name p, str (point_x p), str (point_y p)]"

fun write_points :: "('f \<Rightarrow> string) \<Rightarrow> 'f point list \<Rightarrow> string \<Rightarrow> string" where
  "write_points str [] csvfile = csvfile"
| "write_points str (p # ps) csvfile = write_points str ps (writerow (dict_to_list str p) csvfile)"

text \<open>
  The encoding \<^verbatim>\<open>utf-8-sig\<close> puts the byte order mark before the first text written.
\<close>

definition bom :: string where
  "bom = [CHR 0xEF, CHR 0xBB, CHR 0xBF]"

definition csv_file :: "('f \<Rightarrow> string) \<Rightarrow> 'f point list \<Rightarrow> string" where
  "csv_file str points = write_points str points (writeheader bom)"

section \<open>The default output path\<close>

text \<open>
  \<^verbatim>\<open>str.rfind(c)\<close>: the index of the last occurrence, or \<open>-1\<close>.
\<close>

definition rfind :: "char \<Rightarrow> string \<Rightarrow> int" where
  "rfind c s =
     (if c \<in> set s then int (length s) - 1 - int (length (takeWhile (\<lambda>d. d \<noteq> c) (rev s)))
      else - 1)"

definition rstrip :: "char \<Rightarrow> string \<Rightarrow> string" where
  "rstrip c s = rev (dropWhile (\<lambda>d. d = c) (rev s))"

text \<open>\<^verbatim>\<open>str.split('/')\<close>.\<close>

fun split_sep :: "string \<Rightarrow> string list" where
  "split_sep [] = [[]]"
| "split_sep (c # cs) =
     (if c = CHR ''/'' then [] # split_sep cs
      else (case split_sep cs of [] \<Rightarrow> [[c]] | piece # pieces \<Rightarrow> (c # piece) # pieces))"

text \<open>
  \<^verbatim>\<open>Path(p).name\<close> on a POSIX path: the last of the components that are neither empty
  nor \<^verbatim>\<open>.\<close>, and the empty string when there is none.
\<close>

definition path_name :: "string \<Rightarrow> string" where
  "path_name p =
     (case filter (\<lambda>x. x \<noteq> [] \<and> x \<noteq> ''.'') (split_sep p) of
        [] \<Rightarrow> []
      | parts \<Rightarrow> last parts)"

text \<open>
  \<^verbatim>\<open>Path(p).stem\<close>, as in CPython 3.11:
  \<^verbatim>\<open>i = name.rfind('.'); return name[:i] if 0 < i < len(name) - 1 else name\<close>.
\<close>

definition stem :: "string \<Rightarrow> string" where
  "stem p =
     (let name = path_name p; i = rfind CHR ''.'' name in
      if 0 < i \<and> i < int (length name) - 1 then take (nat i) name else name)"

text \<open>
  \<^verbatim>\<open>os.path.dirname\<close> (posixpath): the part up to the last slash, without its trailing
  slashes unless it consists of slashes only.
\<close>

definition dirname :: "string \<Rightarrow> string" where
  "dirname p =
     (let i = rfind CHR ''/'' p + 1; head = take (nat i) p in
      if head \<noteq> [] \<and> head \<noteq> replicate (length head) CHR ''/'' then rstrip CHR ''/'' head
      else head)"

text \<open>\<^verbatim>\<open>os.path.join(a, b)\<close> (posixpath).\<close>

definition join :: "string \<Rightarrow> string \<Rightarrow> string" where
  "join a b =
     (if b \<noteq> [] \<and> hd b = CHR ''/'' then b
      else if a = [] \<or> last a = CHR ''/'' then a @ b
      else a @ ''/'' @ b)"

definition default_output_path :: "string \<Rightarrow> string" where
  "default_output_path ggb_file_path =
     (let base_name = stem ggb_file_path in
      join (dirname ggb_file_path) (base_name @ ''_points.csv''))"

section \<open>Files and the extraction\<close>

text \<open>
  The exceptions. The function raises \<^verbatim>\<open>FileNotFoundError\<close> with the path and
  \<^verbatim>\<open>ValueError\<close> with one of three messages. The libraries raise the others inside the
  \<^verbatim>\<open>try\<close> block: \<^verbatim>\<open>BadZipFile\<close>, \<^verbatim>\<open>KeyError\<close> and \<^verbatim>\<open>ParseError\<close>, which the function
  catches, and exceptions it has no clause for, which leave the function as they are. A
  \<^verbatim>\<open>ValueError\<close> of a library carries the library's message.
\<close>

datatype cause =
    NotAZipFile string        \<comment> \<open>from \<^verbatim>\<open>BadZipFile\<close>, with the path\<close>
  | XmlParseError string      \<comment> \<open>from \<^verbatim>\<open>ParseError\<close>, with its message\<close>
  | MissingGeogebraXml        \<comment> \<open>from \<^verbatim>\<open>KeyError\<close>\<close>
  | LibraryMessage string     \<comment> \<open>raised by a library, with its message\<close>

datatype error =
    FileNotFoundError string
  | ValueError cause
  | BadZipFile
  | KeyError
  | ParseError string
  | IsADirectoryError
  | PermissionError
  | ZlibError
  | RuntimeError
  | NotImplementedError
  | LookupError

text \<open>
  The three \<^verbatim>\<open>except\<close> clauses of the \<^verbatim>\<open>try\<close> block, on an exception raised inside it.
  No other exception has a clause.
\<close>

definition except_clauses :: "string \<Rightarrow> error \<Rightarrow> error" where
  "except_clauses ggb_file_path e =
     (case e of
        BadZipFile \<Rightarrow> ValueError (NotAZipFile ggb_file_path)
      | ParseError message \<Rightarrow> ValueError (XmlParseError message)
      | KeyError \<Rightarrow> ValueError MissingGeogebraXml
      | _ \<Rightarrow> e)"

text \<open>
  A file is what the libraries make of it. \<^verbatim>\<open>zipfile.ZipFile(path)\<close> raises
  \<^verbatim>\<open>BadZipFile\<close> on a file that is no archive (\<open>Plain\<close>, with the bytes), raises another
  exception (\<open>OpenRaises\<close>: \<^verbatim>\<open>IsADirectoryError\<close> on a directory, \<^verbatim>\<open>PermissionError\<close> on a
  file that may not be read), or gives an archive, a dictionary from member names to
  members. On a member, \<^verbatim>\<open>zip_ref.read\<close> may raise (\<open>ReadRaises\<close>: \<^verbatim>\<open>BadZipFile\<close> for a
  wrong checksum, \<^verbatim>\<open>zlib.error\<close> for a corrupt compressed stream, \<^verbatim>\<open>RuntimeError\<close> for an
  encrypted member, \<^verbatim>\<open>NotImplementedError\<close> for an unknown compression method), and
  \<^verbatim>\<open>ET.fromstring\<close> on its bytes may raise (\<open>ParseRaises\<close>: \<^verbatim>\<open>ParseError\<close> with the
  parser's message for text that is not well-formed, \<^verbatim>\<open>LookupError\<close> for an unknown
  encoding, \<^verbatim>\<open>ValueError\<close> for a multi-byte encoding); otherwise it returns the root
  element. Opening the output path for writing succeeds.
\<close>

datatype member = ReadRaises error | ParseRaises error | Document xml

datatype content = Plain string | OpenRaises error | Archive "string \<Rightarrow> member option"

record world =
  files :: "string \<Rightarrow> content option"
  stdout :: "message list"

definition extract_points_from_ggb ::
  "(string \<Rightarrow> 'f option) \<Rightarrow> ('f \<Rightarrow> string) \<Rightarrow> world \<Rightarrow> string \<Rightarrow> string option
     \<Rightarrow> (error + 'f point list) \<times> world"
where
  "extract_points_from_ggb float str w ggb_file_path output_csv_path_arg =
     (case files w ggb_file_path of
        None \<Rightarrow> (Inl (FileNotFoundError ggb_file_path), w)
      | Some f \<Rightarrow>
          (let output_csv_path =
                 (case output_csv_path_arg of
                    None \<Rightarrow> default_output_path ggb_file_path
                  | Some path \<Rightarrow> path) in
           case f of
             Plain bytes \<Rightarrow> (Inl (except_clauses ggb_file_path BadZipFile), w)
           | OpenRaises e \<Rightarrow> (Inl (except_clauses ggb_file_path e), w)
           | Archive zip_ref \<Rightarrow>
               (case zip_ref ''geogebra.xml'' of
                  None \<Rightarrow> (Inl (except_clauses ggb_file_path KeyError), w)
                | Some (ReadRaises e) \<Rightarrow> (Inl (except_clauses ggb_file_path e), w)
                | Some (ParseRaises e) \<Rightarrow> (Inl (except_clauses ggb_file_path e), w)
                | Some (Document root) \<Rightarrow>
                    (let (points, out) = loop float (findall_points root) ([], stdout w) in
                     if points \<noteq> [] then
                       (Inr points,
                        w\<lparr>files := (files w)(output_csv_path \<mapsto> Plain (csv_file str points)),
                          stdout := out @ [Saved (length points) output_csv_path]\<rparr>)
                     else (Inr points, w\<lparr>stdout := out @ [NoPoints]\<rparr>)))))"

section \<open>The builtin \<^verbatim>\<open>float\<close> on ASCII strings\<close>

text \<open>
  The theorems below hold for every function \<open>float\<close>. The examples need a concrete one:
  \<open>float_ascii\<close> follows CPython's \<^verbatim>\<open>float(str)\<close> on strings of ASCII characters. It
  strips ASCII whitespace, checks that every underscore stands between two digits and
  removes the underscores, then reads an optional sign and either a decimal number with
  an optional exponent or one of \<^verbatim>\<open>inf\<close>, \<^verbatim>\<open>infinity\<close>, \<^verbatim>\<open>nan\<close> in any case. CPython
  also accepts decimal digits and whitespace outside ASCII; \<open>float_ascii\<close> is \<open>None\<close>
  on every string with a byte above 127 and is used on ASCII strings only.

  \<open>Finite m e\<close> is the binary64 number nearest to \<open>m * 10 ^ e\<close>; the rounding is not
  modelled, overflow is: a magnitude of at least \<open>2 ^ 1024 - 2 ^ 970\<close> rounds to infinity.
\<close>

datatype pyfloat = Finite int int | PosInf | NegInf | NaN

fun is_finite :: "pyfloat \<Rightarrow> bool" where
  "is_finite (Finite m e) = True"
| "is_finite PosInf = False"
| "is_finite NegInf = False"
| "is_finite NaN = False"

definition py_isspace :: "char \<Rightarrow> bool" where
  "py_isspace c = (c \<in> set [CHR 0x20, CHR 0x09, CHR 0x0A, CHR 0x0B, CHR 0x0C, CHR 0x0D])"

definition strip :: "string \<Rightarrow> string" where
  "strip s = rev (dropWhile py_isspace (rev (dropWhile py_isspace s)))"

definition is_digit :: "char \<Rightarrow> bool" where
  "is_digit c = (c \<in> set ''0123456789'')"

definition digit_value :: "char \<Rightarrow> int" where
  "digit_value c = int (of_char c) - 48"

definition digits_value :: "string \<Rightarrow> int" where
  "digits_value ds = foldl (\<lambda>n d. 10 * n + digit_value d) 0 ds"

text \<open>An underscore needs a digit before it and a digit after it.\<close>

fun underscores_ok :: "char \<Rightarrow> string \<Rightarrow> bool" where
  "underscores_ok prev [] = (prev \<noteq> CHR ''_'')"
| "underscores_ok prev (c # cs) =
     (if c = CHR ''_'' then is_digit prev \<and> underscores_ok c cs
      else (prev = CHR ''_'' \<longrightarrow> is_digit c) \<and> underscores_ok c cs)"

definition ascii_lower :: "char \<Rightarrow> char" where
  "ascii_lower c =
     (let n = of_char c :: nat in if 65 \<le> n \<and> n \<le> 90 then char_of (n + 32) else c)"

definition take_sign :: "string \<Rightarrow> bool \<times> string" where
  "take_sign s =
     (case s of
        [] \<Rightarrow> (False, s)
      | c # cs \<Rightarrow> if c = CHR ''-'' then (True, cs) else if c = CHR ''+'' then (False, cs)
                 else (False, s))"

definition parse_inf_or_nan :: "string \<Rightarrow> pyfloat option" where
  "parse_inf_or_nan s =
     (let (negate, r) = take_sign s; l = map ascii_lower r in
      if l = ''inf'' \<or> l = ''infinity'' then Some (if negate then NegInf else PosInf)
      else if l = ''nan'' then Some NaN
      else None)"

text \<open>
  A decimal number: digits, optionally a point and digits, with a digit somewhere, then
  optionally \<^verbatim>\<open>e\<close> or \<^verbatim>\<open>E\<close>, a sign and at least one digit. The result is the mantissa and
  the power of ten.
\<close>

definition parse_number :: "string \<Rightarrow> (int \<times> int) option" where
  "parse_number s =
     (let (negate, r) = take_sign s;
          int_part = takeWhile is_digit r;
          r1 = dropWhile is_digit r;
          (frac_part, r2) =
             (case r1 of
                [] \<Rightarrow> ([], r1)
              | c # cs \<Rightarrow> if c = CHR ''.'' then (takeWhile is_digit cs, dropWhile is_digit cs)
                         else ([], r1));
          m = (if negate then - digits_value (int_part @ frac_part)
               else digits_value (int_part @ frac_part))
      in if int_part = [] \<and> frac_part = [] then None
         else (case r2 of
                 [] \<Rightarrow> Some (m, - int (length frac_part))
               | c # cs \<Rightarrow>
                   if c = CHR ''e'' \<or> c = CHR ''E'' then
                     (let (eneg, ds) = take_sign cs in
                      if ds \<noteq> [] \<and> list_all is_digit ds
                      then Some (m, (if eneg then - digits_value ds else digits_value ds)
                                    - int (length frac_part))
                      else None)
                   else None))"

definition to_double :: "int \<Rightarrow> int \<Rightarrow> pyfloat" where
  "to_double m e =
     (let limit = 2 ^ 1024 - 2 ^ 970 :: int;
          overflow = (if 0 \<le> e then limit \<le> \<bar>m\<bar> * 10 ^ nat e
                      else limit * 10 ^ nat (- e) \<le> \<bar>m\<bar>)
      in if overflow then (if m < 0 then NegInf else PosInf) else Finite m e)"

definition float_ascii :: "string \<Rightarrow> pyfloat option" where
  "float_ascii s =
     (if list_ex (\<lambda>c. 128 \<le> (of_char c :: nat)) s then None
      else let t = strip s in
        if t = [] then None
        else if \<not> underscores_ok (CHR 0x00) t then None
        else let u = filter (\<lambda>c. c \<noteq> CHR ''_'') t in
          (case parse_number u of
             Some (m, e) \<Rightarrow> Some (to_double m e)
           | None \<Rightarrow> parse_inf_or_nan u))"

section \<open>Reading a CSV file back\<close>

text \<open>
  Modelled from the spec: the program does not read its output, and no reader is part of
  the repository. The spec says that the file is comma-separated, UTF-8 with a byte order
  mark, and that "line terminator and quoting follow standard CSV escaping rules (fields
  containing the delimiter or quote characters are quoted)". The reader below is that
  standard grammar (RFC 4180): records end with CR LF, fields are separated by commas, a
  field is either free of commas, quotes, CR and LF, or enclosed in quotes with every
  quote inside doubled. Any other input is rejected with \<open>None\<close>.

  The reader goes through the text character by character, with the field read so far,
  the fields of the current record and the finished records.
\<close>

datatype mode =
    RecordStart   \<comment> \<open>before the first character of a record\<close>
  | FieldStart    \<comment> \<open>after a comma\<close>
  | Unquoted      \<comment> \<open>in a field without quotes\<close>
  | Quoted        \<comment> \<open>in a quoted field\<close>
  | QuoteSeen     \<comment> \<open>after a quote in a quoted field\<close>
  | CrSeen        \<comment> \<open>after the CR that ends a record\<close>

definition CR :: char where
  "CR = CHR 0x0D"

definition LF :: char where
  "LF = CHR 0x0A"

fun csv_read ::
  "mode \<Rightarrow> string \<Rightarrow> string list \<Rightarrow> string list list \<Rightarrow> string \<Rightarrow> string list list option"
where
  "csv_read m field row rows [] =
     (case m of
        RecordStart \<Rightarrow> Some rows
      | FieldStart \<Rightarrow> Some (rows @ [row @ [[]]])
      | Unquoted \<Rightarrow> Some (rows @ [row @ [field]])
      | Quoted \<Rightarrow> None
      | QuoteSeen \<Rightarrow> Some (rows @ [row @ [field]])
      | CrSeen \<Rightarrow> None)"
| "csv_read m field row rows (c # cs) =
     (case m of
        Quoted \<Rightarrow>
          if c = quotechar then csv_read QuoteSeen field row rows cs
          else csv_read Quoted (field @ [c]) row rows cs
      | QuoteSeen \<Rightarrow>
          if c = quotechar then csv_read Quoted (field @ [c]) row rows cs
          else if c = delimiter then csv_read FieldStart [] (row @ [field]) rows cs
          else if c = CR then csv_read CrSeen [] (row @ [field]) rows cs
          else None
      | CrSeen \<Rightarrow>
          if c = LF then csv_read RecordStart [] [] (rows @ [row]) cs else None
      | Unquoted \<Rightarrow>
          if c = delimiter then csv_read FieldStart [] (row @ [field]) rows cs
          else if c = CR then csv_read CrSeen [] (row @ [field]) rows cs
          else if c = quotechar \<or> c = LF then None
          else csv_read Unquoted (field @ [c]) row rows cs
      | _ \<Rightarrow>
          if c = quotechar then csv_read Quoted [] row rows cs
          else if c = delimiter then csv_read FieldStart [] (row @ [[]]) rows cs
          else if c = CR then csv_read CrSeen [] (row @ [[]]) rows cs
          else if c = LF then None
          else csv_read Unquoted [c] row rows cs)"

text \<open>
  Modelled from the spec: the file is "UTF-8 encoded with a byte-order marker"; decoding
  as \<^verbatim>\<open>utf-8-sig\<close> drops a leading byte order mark. Reading a file is decoding it and
  running the reader from the start of a record.
\<close>

definition decode_utf_8_sig :: "string \<Rightarrow> string" where
  "decode_utf_8_sig bytes = (if take 3 bytes = bom then drop 3 bytes else bytes)"

definition read_csv_file :: "string \<Rightarrow> string list list option" where
  "read_csv_file bytes = csv_read RecordStart [] [] [] (decode_utf_8_sig bytes)"

section \<open>The words of the specification\<close>

text \<open>
  A point element is an element with the tag \<^verbatim>\<open>element\<close> whose attribute \<^verbatim>\<open>type\<close> is
  \<^verbatim>\<open>point\<close>. The elements at depth \<open>n\<close> of a document are the root for \<open>n = 0\<close> and the
  children of the elements at depth \<open>n - 1\<close> otherwise. The point elements of a document,
  in document order, are those of the traversal from the root, the root included.
\<close>

definition is_point_element :: "xml \<Rightarrow> bool" where
  "is_point_element e = (tag e = ''element'' \<and> map_of (attrib e) ''type'' = Some ''point'')"

fun at_depth :: "nat \<Rightarrow> xml \<Rightarrow> xml list" where
  "at_depth 0 e = [e]"
| "at_depth (Suc n) e = concat (map (at_depth n) (children e))"

definition point_elements :: "xml \<Rightarrow> xml list" where
  "point_elements root = filter is_point_element (iter root)"

text \<open>
  "Having a direct \<^verbatim>\<open>coords\<close> child with non-empty \<^verbatim>\<open>x\<close> and \<^verbatim>\<open>y\<close> attributes that parse
  as numbers."
\<close>

definition numeric_coords :: "(string \<Rightarrow> 'f option) \<Rightarrow> xml \<Rightarrow> bool" where
  "numeric_coords float c =
     (tag c = ''coords'' \<and> elem_get c ''x'' [] \<noteq> [] \<and> elem_get c ''y'' [] \<noteq> [] \<and>
      float (elem_get c ''x'' []) \<noteq> None \<and> float (elem_get c ''y'' []) \<noteq> None)"

definition has_numeric_coords :: "(string \<Rightarrow> 'f option) \<Rightarrow> xml \<Rightarrow> bool" where
  "has_numeric_coords float e = list_ex (numeric_coords float) (children e)"

section \<open>Example inputs\<close>

text \<open>
  The scenario of the specification: point \<^verbatim>\<open>A\<close> at \<^verbatim>\<open>(1.5, -2.0)\<close> and point \<^verbatim>\<open>B\<close> at
  \<^verbatim>\<open>(0, 0)\<close>, in the layout GeoGebra writes.
\<close>

definition point_xml :: "string \<Rightarrow> xml list \<Rightarrow> xml" where
  "point_xml label cs = Element ''element'' [(''type'', ''point''), (''label'', label)] cs"

definition coords_xml :: "string \<Rightarrow> string \<Rightarrow> xml" where
  "coords_xml x y = Element ''coords'' [(''x'', x), (''y'', y), (''z'', ''1.0'')] []"

definition two_points :: xml where
  "two_points =
     Element ''geogebra'' [(''format'', ''5.0'')]
       [Element ''construction'' []
          [point_xml ''A'' [Element ''show'' [(''object'', ''true'')] [], coords_xml ''1.5'' ''-2.0''],
           point_xml ''B'' [coords_xml ''0'' ''0'']]]"

text \<open>A document whose root is itself a point element with numeric coordinates.\<close>

definition root_point :: xml where
  "root_point = point_xml ''A'' [coords_xml ''1'' ''2'']"

text \<open>
  Points that are skipped: \<^verbatim>\<open>C\<close> has no \<^verbatim>\<open>coords\<close>, \<^verbatim>\<open>D\<close> has an empty \<^verbatim>\<open>x\<close>, \<^verbatim>\<open>E\<close> has
  an \<^verbatim>\<open>x\<close> that is no number, \<^verbatim>\<open>F\<close> has a second \<^verbatim>\<open>coords\<close> child with numbers after a
  first one without.
\<close>

definition skipped_points :: xml where
  "skipped_points =
     Element ''geogebra'' []
       [point_xml ''C'' [],
        point_xml ''D'' [coords_xml [] ''2''],
        point_xml ''E'' [coords_xml ''abc'' ''2''],
        point_xml ''F'' [Element ''coords'' [] [], coords_xml ''1'' ''2'']]"

text \<open>A point whose coordinates are not finite.\<close>

definition nan_point :: xml where
  "nan_point = Element ''geogebra'' [] [point_xml ''G'' [coords_xml ''nan'' ''inf'']]"

text \<open>A world with one archive, at \<^verbatim>\<open>dir/calculus.ggb\<close>, holding the given document.\<close>

definition world_with :: "xml \<Rightarrow> world" where
  "world_with root =
     \<lparr>files = [''dir/calculus.ggb'' \<mapsto> Archive [''geogebra.xml'' \<mapsto> Document root]],
      stdout = []\<rparr>"

text \<open>\<^verbatim>\<open>str\<close> on the floats of the examples.\<close>

definition str_example :: "pyfloat \<Rightarrow> string" where
  "str_example v =
     (if v = Finite 15 (- 1) then ''1.5''
      else if v = Finite (- 20) (- 1) then ''-2.0''
      else if v = Finite 0 0 then ''0.0''
      else if v = NaN then ''nan''
      else if v = PosInf then ''inf''
      else ''-inf'')"

text \<open>A point whose second \<^verbatim>\<open>coords\<close> child has numbers and whose first has none.\<close>

definition second_coords :: xml where
  "second_coords =
     Element ''geogebra'' [] [point_xml ''F'' [Element ''coords'' [] [], coords_xml ''1'' ''2'']]"

section \<open>What the loop contributes\<close>

text \<open>
  The records and the warnings that the loop over a list of elements adds, started on
  an empty list of points and nothing printed.
\<close>

definition records :: "(string \<Rightarrow> 'f option) \<Rightarrow> xml list \<Rightarrow> 'f point list" where
  "records float els = fst (loop float els ([], []))"

definition warnings :: "(string \<Rightarrow> 'f option) \<Rightarrow> xml list \<Rightarrow> message list" where
  "warnings float els = snd (loop float els ([], []))"


text \<open>A point whose label holds a line break, a comma and quotes.\<close>

definition awkward_label :: string where
  "awkward_label = [CHR ''P'', CR, LF, CHR ''Q'', CHR '','', CHR 0x22, CHR ''R'', CHR 0x22]"


section \<open>Reading the points back\<close>

text \<open>
  Modelled from the spec: the repository reads no CSV file. "Re-reading" a file "yields
  records" of "(label, x, y) triples": the first row must be the header row, and each
  row after it must have three fields, the label and two texts that \<^verbatim>\<open>float\<close> accepts.
\<close>

definition row_to_point :: "(string \<Rightarrow> 'f option) \<Rightarrow> string list \<Rightarrow> 'f point option" where
  "row_to_point float row =
     (case row of
        [name, x, y] \<Rightarrow>
          (case float x of
             None \<Rightarrow> None
           | Some x_float \<Rightarrow>
               (case float y of
                  None \<Rightarrow> None
                | Some y_float \<Rightarrow>
                    Some \<lparr>point_name = name, point_x = x_float, point_y = y_float\<rparr>))
      | _ \<Rightarrow> None)"

definition read_points :: "(string \<Rightarrow> 'f option) \<Rightarrow> string \<Rightarrow> 'f point list option" where
  "read_points float bytes =
     (case read_csv_file bytes of
        None \<Rightarrow> None
      | Some [] \<Rightarrow> None
      | Some (header # rows) \<Rightarrow>
          if header = fieldnames then those (map (row_to_point float) rows) else None)"

section \<open>The loop, unrolled\<close>

lemma loop_body_from_empty:
  "loop_body float el (ps, out) =
     (ps @ fst (loop_body float el ([], [])), out @ snd (loop_body float el ([], [])))"
  by (simp add: loop_body_def Let_def split: option.splits)

lemma loop_from_empty:
  "loop float els (ps, out) =
     (ps @ fst (loop float els ([], [])), out @ snd (loop float els ([], [])))"
proof (induction els arbitrary: ps out)
  case Nil
  show ?case by simp
next
  case (Cons el els)
  obtain qs msgs where b: "loop_body float el ([], []) = (qs, msgs)"
    by (cases "loop_body float el ([], [])")
  have 1: "loop_body float el (ps, out) = (ps @ qs, out @ msgs)"
    using loop_body_from_empty [of float el ps out] b by simp
  show ?case
    using Cons.IH [of "ps @ qs" "out @ msgs"] Cons.IH [of qs msgs] 1 b by simp
qed

lemma loop_append: "loop float (xs @ ys) st = loop float ys (loop float xs st)"
  by (induction xs arbitrary: st) simp_all

lemma loop_records_warnings:
  "loop float els (ps, out) = (ps @ records float els, out @ warnings float els)"
  using loop_from_empty [of float els ps out] by (simp add: records_def warnings_def)

lemma records_append: "records float (xs @ ys) = records float xs @ records float ys"
proof -
  have "loop float (xs @ ys) ([], []) = loop float ys (records float xs, warnings float xs)"
    using loop_records_warnings [of float xs "[]" "[]"] by (simp add: loop_append)
  then have "fst (loop float (xs @ ys) ([], [])) = records float xs @ records float ys"
    using loop_records_warnings [of float ys "records float xs" "warnings float xs"] by simp
  then show ?thesis unfolding records_def .
qed

lemma warnings_append: "warnings float (xs @ ys) = warnings float xs @ warnings float ys"
proof -
  have "loop float (xs @ ys) ([], []) = loop float ys (records float xs, warnings float xs)"
    using loop_records_warnings [of float xs "[]" "[]"] by (simp add: loop_append)
  then have "snd (loop float (xs @ ys) ([], [])) = warnings float xs @ warnings float ys"
    using loop_records_warnings [of float ys "records float xs" "warnings float xs"] by simp
  then show ?thesis unfolding warnings_def .
qed

lemma records_single: "records float [el] = fst (loop_body float el ([], []))"
  by (simp add: records_def)

lemma warnings_single: "warnings float [el] = snd (loop_body float el ([], []))"
  by (simp add: warnings_def)

lemma extract_document:
  assumes "files w p = Some (Archive z)" and "z ''geogebra.xml'' = Some (Document root)"
  shows "extract_points_from_ggb float str w p oarg =
     (let points = records float (findall_points root);
          out = stdout w @ warnings float (findall_points root);
          output_csv_path = (case oarg of None \<Rightarrow> default_output_path p | Some path \<Rightarrow> path) in
      if points \<noteq> [] then
        (Inr points,
         w\<lparr>files := (files w)(output_csv_path \<mapsto> Plain (csv_file str points)),
           stdout := out @ [Saved (length points) output_csv_path]\<rparr>)
      else (Inr points, w\<lparr>stdout := out @ [NoPoints]\<rparr>))"
  using assms
  by (simp add: extract_points_from_ggb_def Let_def loop_records_warnings)

section \<open>Errors before the descriptor is read\<close>

text \<open>
  Claim C5. A call with a path that does not exist raises \<^verbatim>\<open>FileNotFoundError\<close>; the
  check comes first, so the archive is not opened, and the world is as before: no
  output file is created and nothing is printed.
\<close>

theorem nonexistent_path_raises:
  "files w ggb_file_path = None \<Longrightarrow>
   extract_points_from_ggb float str w ggb_file_path output_csv_path =
     (Inl (FileNotFoundError ggb_file_path), w)"
  by (simp add: extract_points_from_ggb_def)

theorem nonexistent_path_raises_witness:
  "files (world_with two_points) ''missing.ggb'' = None \<and>
   extract_points_from_ggb float_ascii str_example (world_with two_points) ''missing.ggb'' None =
     (Inl (FileNotFoundError ''missing.ggb''), world_with two_points)"
  using nonexistent_path_raises
    [of "world_with two_points" "''missing.ggb''" float_ascii str_example None]
  by (simp add: world_with_def)




section \<open>One element of the loop\<close>

text \<open>
  Claim C10. When a selected element has several \<^verbatim>\<open>coords\<close> children, the loop reads the
  first one only: whatever follows the first \<^verbatim>\<open>coords\<close> child among the children, the
  loop gives the same points and the same output.
\<close>

theorem first_coords_only:
  assumes "\<forall>c \<in> set pre. tag c \<noteq> ''coords''" and "tag coords = ''coords''"
  shows "loop float (before @ Element t a (pre @ coords # later) # after) st =
         loop float (before @ Element t a (pre @ coords # later') # after) st"
proof -
  have f: "elem_find (Element t a (pre @ coords # ls)) ''coords'' = Some coords" for ls
    using assms by (induction pre) (simp_all add: elem_find_def)
  have "loop_body float (Element t a (pre @ coords # later)) s =
        loop_body float (Element t a (pre @ coords # later')) s" for s
    by (simp add: loop_body_def f elem_get_def)
  then show ?thesis by (simp add: loop_append)
qed

theorem first_coords_only_witness:
  "list_all (\<lambda>c. tag c \<noteq> ''coords'') [Element ''show'' [] []] \<and>
   tag (coords_xml ''1'' ''2'') = ''coords'' \<and>
   loop float_ascii [Element ''element'' [(''label'', ''P'')]
       ([Element ''show'' [] []] @ coords_xml ''1'' ''2'' # [coords_xml ''7'' ''abc''])] ([], []) =
   loop float_ascii [Element ''element'' [(''label'', ''P'')]
       ([Element ''show'' [] []] @ coords_xml ''1'' ''2'' # [])] ([], []) \<and>
   loop float_ascii [Element ''element'' [(''label'', ''P'')]
       ([Element ''show'' [] []] @ coords_xml ''1'' ''2'' # [])] ([], []) =
     ([\<lparr>point_name = ''P'', point_x = Finite 1 0, point_y = Finite 2 0\<rparr>], [])"
  using first_coords_only [of "[Element ''show'' [] []]" "coords_xml ''1'' ''2''" float_ascii "[]"
      "''element''" "[(''label'', ''P'')]" "[coords_xml ''7'' ''abc'']" "[]" "([], [])" "[]"]
  by (simp add: coords_xml_def loop_body_def elem_find_def elem_get_def float_ascii_def
      strip_def py_isspace_def parse_number_def take_sign_def is_digit_def Let_def to_double_def
      digits_value_def digit_value_def)

lemma records_Cons: "records float (el # els) = records float [el] @ records float els"
  using records_append [of float "[el]" els] by simp

lemma warnings_Cons: "warnings float (el # els) = warnings float [el] @ warnings float els"
  using warnings_append [of float "[el]" els] by simp

lemma records_Nil: "records float [] = []"
  by (simp add: records_def)

lemma warnings_Nil: "warnings float [] = []"
  by (simp add: warnings_def)

lemma tl_iter: "tl (iter root) = concat (map iter (children root))"
  by (cases root) simp

lemma findall_points_eq:
  "findall_points root = filter is_point_element (tl (iter root))"
proof -
  have "is_point_element = (\<lambda>e. tag e = ''element'' \<and> map_of (attrib e) ''type'' = Some ''point'')"
    by (rule ext) (simp add: is_point_element_def)
  then show ?thesis
    by (simp add: findall_points_def select_attribute_def select_descendant_def select_self_def
        tl_iter)
qed

lemma no_coordinates_no_record:
  assumes "elem_find el ''coords'' = None \<or>
     (\<exists>coords. elem_find el ''coords'' = Some coords \<and>
        (map_of (attrib coords) ''x'' \<in> {None, Some []} \<or>
         map_of (attrib coords) ''y'' \<in> {None, Some []}))"
  shows "loop_body float el ([], []) = ([], [])"
  using assms by (auto simp add: loop_body_def elem_get_def Let_def)

lemmas example_defs =
  world_with_def two_points_def skipped_points_def nan_point_def root_point_def
  second_coords_def point_xml_def coords_xml_def

lemmas selection_defs =
  findall_points_def select_attribute_def select_descendant_def select_self_def
  elem_find_def elem_get_def

lemmas float_defs =
  float_ascii_def strip_def py_isspace_def parse_number_def take_sign_def is_digit_def
  parse_inf_or_nan_def ascii_lower_def to_double_def digits_value_def digit_value_def Let_def

lemma findall_skipped:
  "findall_points skipped_points =
     [point_xml ''C'' [], point_xml ''D'' [coords_xml [] ''2''],
      point_xml ''E'' [coords_xml ''abc'' ''2''],
      point_xml ''F'' [Element ''coords'' [] [], coords_xml ''1'' ''2'']]"
  by (simp add: example_defs selection_defs)

lemma records_D_E_F:
  "records float_ascii [point_xml ''D'' [coords_xml [] ''2''],
      point_xml ''E'' [coords_xml ''abc'' ''2''],
      point_xml ''F'' [Element ''coords'' [] [], coords_xml ''1'' ''2'']] = []"
  by (simp add: records_def loop_body_def example_defs selection_defs float_defs)

text \<open>
  Claim C6. A selected element without a \<^verbatim>\<open>coords\<close> child, or whose first \<^verbatim>\<open>coords\<close>
  child has no \<^verbatim>\<open>x\<close> or no \<^verbatim>\<open>y\<close> attribute or an empty one, adds no record and prints
  nothing, and the call returns: its result is made of the records of the elements
  before it and after it.
\<close>

theorem skipped_without_coordinates:
  assumes "files w p = Some (Archive z)" and "z ''geogebra.xml'' = Some (Document root)"
    and "findall_points root = before @ el # after"
    and "elem_find el ''coords'' = None \<or>
     (\<exists>coords. elem_find el ''coords'' = Some coords \<and>
        (map_of (attrib coords) ''x'' \<in> {None, Some []} \<or>
         map_of (attrib coords) ''y'' \<in> {None, Some []}))"
  shows "\<exists>w' final.
     extract_points_from_ggb float str w p oarg =
       (Inr (records float before @ records float after), w') \<and>
     stdout w' = stdout w @ warnings float before @ warnings float after @ [final]"
proof -
  have b: "loop_body float el ([], []) = ([], [])"
    using assms(4) by (rule no_coordinates_no_record)
  have r: "records float (findall_points root) = records float before @ records float after"
    using records_append [of float before "el # after"] records_Cons [of float el after] b
    by (simp add: assms(3) records_single)
  have m: "warnings float (findall_points root) = warnings float before @ warnings float after"
    using warnings_append [of float before "el # after"] warnings_Cons [of float el after] b
    by (simp add: assms(3) warnings_single)
  show ?thesis
    using extract_document [OF assms(1) assms(2), of float str oarg]
    by (simp add: Let_def r m)
qed

theorem skipped_without_coordinates_witness:
  "files (world_with skipped_points) ''dir/calculus.ggb'' =
     Some (Archive [''geogebra.xml'' \<mapsto> Document skipped_points]) \<and>
   findall_points skipped_points =
     [] @ point_xml ''C'' [] #
       [point_xml ''D'' [coords_xml [] ''2''], point_xml ''E'' [coords_xml ''abc'' ''2''],
        point_xml ''F'' [Element ''coords'' [] [], coords_xml ''1'' ''2'']] \<and>
   elem_find (point_xml ''C'' []) ''coords'' = None \<and>
   findall_points skipped_points =
     [point_xml ''C'' []] @ point_xml ''D'' [coords_xml [] ''2''] #
       [point_xml ''E'' [coords_xml ''abc'' ''2''],
        point_xml ''F'' [Element ''coords'' [] [], coords_xml ''1'' ''2'']] \<and>
   elem_find (point_xml ''D'' [coords_xml [] ''2'']) ''coords'' = Some (coords_xml [] ''2'') \<and>
   map_of (attrib (coords_xml [] ''2'')) ''x'' = Some [] \<and>
   fst (extract_points_from_ggb float_ascii str_example (world_with skipped_points)
          ''dir/calculus.ggb'' None) = Inr []"
  using skipped_without_coordinates [of "world_with skipped_points" "''dir/calculus.ggb''"
      "[''geogebra.xml'' \<mapsto> Document skipped_points]" skipped_points "[]" "point_xml ''C'' []"
      "[point_xml ''D'' [coords_xml [] ''2''], point_xml ''E'' [coords_xml ''abc'' ''2''],
        point_xml ''F'' [Element ''coords'' [] [], coords_xml ''1'' ''2'']]"
      float_ascii str_example None]
    skipped_without_coordinates [of "world_with skipped_points" "''dir/calculus.ggb''"
      "[''geogebra.xml'' \<mapsto> Document skipped_points]" skipped_points "[point_xml ''C'' []]"
      "point_xml ''D'' [coords_xml [] ''2'']"
      "[point_xml ''E'' [coords_xml ''abc'' ''2''],
        point_xml ''F'' [Element ''coords'' [] [], coords_xml ''1'' ''2'']]"
      float_ascii str_example None]
    findall_skipped records_D_E_F
  by (auto simp add: world_with_def records_Nil point_xml_def coords_xml_def elem_find_def)

section \<open>The selection\<close>

lemma iter_self: "e \<in> set (iter e)"
  by (cases e) simp

lemma iter_child: "c \<in> set (children e) \<Longrightarrow> x \<in> set (iter c) \<Longrightarrow> x \<in> set (iter e)"
  by (cases e) auto

lemma at_depth_iter: "x \<in> set (at_depth n e) \<Longrightarrow> x \<in> set (iter e)"
proof (induction n arbitrary: e)
  case 0
  then show ?case by (simp add: iter_self)
next
  case (Suc n)
  then obtain c where "c \<in> set (children e)" and "x \<in> set (at_depth n c)" by auto
  then show ?case using Suc.IH iter_child by blast
qed

lemma iter_at_depth: "x \<in> set (iter e) \<Longrightarrow> \<exists>n. x \<in> set (at_depth n e)"
proof (induction e)
  case (Element t a cs)
  show ?case
  proof (cases "x = Element t a cs")
    case True
    then have "x \<in> set (at_depth 0 (Element t a cs))" by simp
    then show ?thesis by blast
  next
    case False
    then obtain c where c: "c \<in> set cs" and x: "x \<in> set (iter c)"
      using Element.prems by auto
    then obtain n where "x \<in> set (at_depth n c)" using Element.IH by blast
    then have "x \<in> set (at_depth (Suc n) (Element t a cs))" using c by auto
    then show ?thesis by blast
  qed
qed

lemma below_root_at_depth:
  "x \<in> set (tl (iter root)) \<longleftrightarrow> (\<exists>n. x \<in> set (at_depth (Suc n) root))"
proof
  assume "x \<in> set (tl (iter root))"
  then obtain c where "c \<in> set (children root)" and "x \<in> set (iter c)"
    by (auto simp add: tl_iter)
  then obtain n where "x \<in> set (at_depth (Suc n) root)"
    using iter_at_depth by fastforce
  then show "\<exists>n. x \<in> set (at_depth (Suc n) root)" by blast
next
  assume "\<exists>n. x \<in> set (at_depth (Suc n) root)"
  then obtain n c where "c \<in> set (children root)" and "x \<in> set (at_depth n c)" by auto
  then show "x \<in> set (tl (iter root))"
    using at_depth_iter by (fastforce simp add: tl_iter)
qed

text \<open>
  Claim C3, as the specification has it, fails at the root: a document whose root is a
  point element has a point element at depth 0 that the selection leaves out.
\<close>

theorem root_not_selected_counterexample:
  "root_point \<in> set (at_depth 0 root_point) \<and> is_point_element root_point \<and>
   root_point \<notin> set (findall_points root_point)"
  by (simp add: example_defs is_point_element_def selection_defs)

text \<open>
  Claim C3, amended. The selection is exactly the point elements below the root, at any
  depth from 1 on: the descendant step of the path starts at the children of the root.
\<close>

theorem findall_points_below_root:
  "e \<in> set (findall_points root) \<longleftrightarrow>
     (\<exists>n. e \<in> set (at_depth (Suc n) root)) \<and> is_point_element e"
  using below_root_at_depth [of e root] by (auto simp add: findall_points_eq)

theorem findall_points_below_root_witness:
  "point_xml ''B'' [coords_xml ''0'' ''0''] \<in> set (at_depth (Suc 1) two_points) \<and>
   is_point_element (point_xml ''B'' [coords_xml ''0'' ''0'']) \<and>
   point_xml ''B'' [coords_xml ''0'' ''0''] \<in> set (findall_points two_points)"
  using findall_points_below_root [of "point_xml ''B'' [coords_xml ''0'' ''0'']" two_points]
  by (simp add: example_defs is_point_element_def selection_defs)

section \<open>Coordinates that are no numbers\<close>

lemma records_single_cases:
  "records float [el] = [] \<or>
   (\<exists>coords x_float y_float.
      elem_find el ''coords'' = Some coords \<and>
      elem_get coords ''x'' [] \<noteq> [] \<and> elem_get coords ''y'' [] \<noteq> [] \<and>
      float (elem_get coords ''x'' []) = Some x_float \<and>
      float (elem_get coords ''y'' []) = Some y_float \<and>
      records float [el] =
        [\<lparr>point_name = elem_get el ''label'' [], point_x = x_float, point_y = y_float\<rparr>])"
  by (auto simp add: records_single loop_body_def Let_def split: option.splits)

lemma records_origin:
  "pt \<in> set (records float els) \<Longrightarrow>
   \<exists>el \<in> set els. \<exists>coords.
      elem_find el ''coords'' = Some coords \<and> point_name pt = elem_get el ''label'' [] \<and>
      float (elem_get coords ''x'' []) = Some (point_x pt) \<and>
      float (elem_get coords ''y'' []) = Some (point_y pt)"
proof (induction els)
  case Nil
  then show ?case by (simp add: records_Nil)
next
  case (Cons el els)
  from Cons.prems have "pt \<in> set (records float [el]) \<or> pt \<in> set (records float els)"
    using records_Cons [of float el els] by simp
  then show ?case
  proof
    assume a: "pt \<in> set (records float [el])"
    from records_single_cases [of float el] a
    obtain coords x_float y_float where
      "elem_find el ''coords'' = Some coords"
      "float (elem_get coords ''x'' []) = Some x_float"
      "float (elem_get coords ''y'' []) = Some y_float"
      "records float [el] =
        [\<lparr>point_name = elem_get el ''label'' [], point_x = x_float, point_y = y_float\<rparr>]"
      by auto
    with a show ?thesis by auto
  next
    assume "pt \<in> set (records float els)"
    then show ?thesis using Cons.IH by auto
  qed
qed

lemma unparsable_warning:
  assumes "elem_find el ''coords'' = Some coords"
    and "elem_get coords ''x'' [] \<noteq> []" and "elem_get coords ''y'' [] \<noteq> []"
    and "float (elem_get coords ''x'' []) = None \<or> float (elem_get coords ''y'' []) = None"
  shows "loop_body float el ([], []) =
     ([], [CoordsWarning (elem_get el ''label'' []) (elem_get coords ''x'' [])
             (elem_get coords ''y'' [])])"
  using assms by (auto simp add: loop_body_def Let_def split: option.splits)

lemma float_ascii_examples:
  "float_ascii ''1.5'' = Some (Finite 15 (- 1))"
  "float_ascii ''-2.0'' = Some (Finite (- 20) (- 1))"
  "float_ascii ''0'' = Some (Finite 0 0)"
  "float_ascii ''1'' = Some (Finite 1 0)"
  "float_ascii ''2'' = Some (Finite 2 0)"
  "float_ascii ''abc'' = None"
  "float_ascii ''nan'' = Some NaN"
  "float_ascii ''inf'' = Some PosInf"
  by code_simp+

lemma run_skipped:
  "extract_points_from_ggb float_ascii str_example (world_with skipped_points)
      ''dir/calculus.ggb'' None =
     (Inr [], (world_with skipped_points)\<lparr>stdout := [CoordsWarning ''E'' ''abc'' ''2'', NoPoints]\<rparr>)"
  by (simp add: extract_points_from_ggb_def loop_body_def example_defs selection_defs
      float_ascii_examples Let_def)

text \<open>
  Claim C2, as the specification has it, fails: \<^verbatim>\<open>float\<close> accepts \<^verbatim>\<open>nan\<close> and \<^verbatim>\<open>inf\<close>, so
  a point with these coordinates is kept, and its record holds values that are not
  finite.
\<close>

theorem nonfinite_record_counterexample:
  "fst (extract_points_from_ggb float_ascii str_example (world_with nan_point)
          ''dir/calculus.ggb'' None) =
     Inr [\<lparr>point_name = ''G'', point_x = NaN, point_y = PosInf\<rparr>] \<and>
   \<not> is_finite NaN \<and> \<not> is_finite PosInf"
  by (simp add: extract_points_from_ggb_def loop_body_def example_defs selection_defs
      float_ascii_examples Let_def)

text \<open>
  Claim C2, amended. The call on a readable descriptor returns. Every record comes from
  a selected element: its name is the label, and its coordinates are the values that
  \<^verbatim>\<open>float\<close> gives for the \<^verbatim>\<open>x\<close> and \<^verbatim>\<open>y\<close> attributes of the first \<^verbatim>\<open>coords\<close> child. A
  selected element whose first \<^verbatim>\<open>coords\<close> child has non-empty \<^verbatim>\<open>x\<close> and \<^verbatim>\<open>y\<close>, one of
  which \<^verbatim>\<open>float\<close> rejects, adds no record and prints one warning with its label and the
  two attribute values, between the output of the elements before and after it.
\<close>

theorem unparsable_coordinates_discarded:
  assumes "files w p = Some (Archive z)" and "z ''geogebra.xml'' = Some (Document root)"
  shows "\<exists>points w'.
     extract_points_from_ggb float str w p oarg = (Inr points, w') \<and>
     (\<forall>pt \<in> set points. \<exists>el \<in> set (findall_points root). \<exists>coords.
        elem_find el ''coords'' = Some coords \<and> point_name pt = elem_get el ''label'' [] \<and>
        float (elem_get coords ''x'' []) = Some (point_x pt) \<and>
        float (elem_get coords ''y'' []) = Some (point_y pt)) \<and>
     (\<forall>before el after coords.
        findall_points root = before @ el # after \<and> elem_find el ''coords'' = Some coords \<and>
        elem_get coords ''x'' [] \<noteq> [] \<and> elem_get coords ''y'' [] \<noteq> [] \<and>
        (float (elem_get coords ''x'' []) = None \<or> float (elem_get coords ''y'' []) = None) \<longrightarrow>
        points = records float before @ records float after \<and>
        (\<exists>final. stdout w' = stdout w @ warnings float before @
           [CoordsWarning (elem_get el ''label'' []) (elem_get coords ''x'' [])
              (elem_get coords ''y'' [])] @
           warnings float after @ [final]))"
proof -
  let ?els = "findall_points root"
  obtain w' final where run:
    "extract_points_from_ggb float str w p oarg = (Inr (records float ?els), w')"
    and out: "stdout w' = stdout w @ warnings float ?els @ [final]"
    using extract_document [OF assms, of float str oarg]
    by (cases "records float ?els = []") (simp_all add: Let_def)
  have origin: "\<forall>pt \<in> set (records float ?els). \<exists>el \<in> set ?els. \<exists>coords.
        elem_find el ''coords'' = Some coords \<and> point_name pt = elem_get el ''label'' [] \<and>
        float (elem_get coords ''x'' []) = Some (point_x pt) \<and>
        float (elem_get coords ''y'' []) = Some (point_y pt)"
    using records_origin [of _ float ?els] by blast
  have dropped: "records float ?els = records float before @ records float after \<and>
        stdout w' = stdout w @ warnings float before @
           [CoordsWarning (elem_get el ''label'' []) (elem_get coords ''x'' [])
              (elem_get coords ''y'' [])] @
           warnings float after @ [final]"
    if sel: "?els = before @ el # after" and c: "elem_find el ''coords'' = Some coords"
      and x: "elem_get coords ''x'' [] \<noteq> []" and y: "elem_get coords ''y'' [] \<noteq> []"
      and f: "float (elem_get coords ''x'' []) = None \<or> float (elem_get coords ''y'' []) = None"
    for before el after coords
  proof -
    have b: "loop_body float el ([], []) =
       ([], [CoordsWarning (elem_get el ''label'' []) (elem_get coords ''x'' [])
               (elem_get coords ''y'' [])])"
      using c x y f by (rule unparsable_warning)
    have r: "records float ?els = records float before @ records float after"
      using records_append [of float before "el # after"] records_Cons [of float el after] b
      by (simp add: sel records_single)
    have m: "warnings float ?els = warnings float before @
           [CoordsWarning (elem_get el ''label'' []) (elem_get coords ''x'' [])
              (elem_get coords ''y'' [])] @ warnings float after"
      using warnings_append [of float before "el # after"] warnings_Cons [of float el after] b
      by (simp add: sel warnings_single)
    show ?thesis using r m out by simp
  qed
  show ?thesis
    using run origin dropped by blast
qed


theorem unparsable_coordinates_discarded_witness:
  "files (world_with skipped_points) ''dir/calculus.ggb'' =
     Some (Archive [''geogebra.xml'' \<mapsto> Document skipped_points]) \<and>
   findall_points skipped_points =
     [point_xml ''C'' [], point_xml ''D'' [coords_xml [] ''2'']] @
       point_xml ''E'' [coords_xml ''abc'' ''2''] #
       [point_xml ''F'' [Element ''coords'' [] [], coords_xml ''1'' ''2'']] \<and>
   elem_find (point_xml ''E'' [coords_xml ''abc'' ''2'']) ''coords'' = Some (coords_xml ''abc'' ''2'') \<and>
   elem_get (coords_xml ''abc'' ''2'') ''x'' [] = ''abc'' \<and>
   elem_get (coords_xml ''abc'' ''2'') ''y'' [] = ''2'' \<and>
   float_ascii ''abc'' = None \<and>
   fst (extract_points_from_ggb float_ascii str_example (world_with skipped_points)
          ''dir/calculus.ggb'' None) = Inr [] \<and>
   stdout (snd (extract_points_from_ggb float_ascii str_example (world_with skipped_points)
          ''dir/calculus.ggb'' None)) = [CoordsWarning ''E'' ''abc'' ''2'', NoPoints]"
  using unparsable_coordinates_discarded [of "world_with skipped_points" "''dir/calculus.ggb''"
      "[''geogebra.xml'' \<mapsto> Document skipped_points]" skipped_points
      float_ascii str_example None]
    findall_skipped run_skipped
  by (simp add: world_with_def point_xml_def coords_xml_def elem_find_def elem_get_def
      float_ascii_examples)

section \<open>Points with numeric coordinates\<close>

lemma numeric_first_coords_record:
  assumes "elem_find el ''coords'' = Some coords" and "numeric_coords float coords"
  shows "\<exists>x_float y_float.
     float (elem_get coords ''x'' []) = Some x_float \<and>
     float (elem_get coords ''y'' []) = Some y_float \<and>
     records float [el] =
       [\<lparr>point_name = elem_get el ''label'' [], point_x = x_float, point_y = y_float\<rparr>]"
  using assms
  by (auto simp add: records_single loop_body_def numeric_coords_def Let_def)

lemma records_of_numeric:
  assumes "\<forall>el \<in> set els. \<exists>coords. elem_find el ''coords'' = Some coords \<and> numeric_coords float coords"
  shows "list_all2
     (\<lambda>el pt. point_name pt = elem_get el ''label'' [] \<and>
        (\<exists>coords. elem_find el ''coords'' = Some coords \<and>
           float (elem_get coords ''x'' []) = Some (point_x pt) \<and>
           float (elem_get coords ''y'' []) = Some (point_y pt)))
     els (records float els)"
  using assms
proof (induction els)
  case Nil
  show ?case by (simp add: records_Nil)
next
  case (Cons el els)
  from Cons.prems obtain coords where c: "elem_find el ''coords'' = Some coords"
    and n: "numeric_coords float coords" by auto
  from numeric_first_coords_record [OF c n] obtain x_float y_float where
    x: "float (elem_get coords ''x'' []) = Some x_float" and
    y: "float (elem_get coords ''y'' []) = Some y_float" and
    r: "records float [el] =
       [\<lparr>point_name = elem_get el ''label'' [], point_x = x_float, point_y = y_float\<rparr>]"
    by blast
  have "list_all2
     (\<lambda>el pt. point_name pt = elem_get el ''label'' [] \<and>
        (\<exists>coords. elem_find el ''coords'' = Some coords \<and>
           float (elem_get coords ''x'' []) = Some (point_x pt) \<and>
           float (elem_get coords ''y'' []) = Some (point_y pt)))
     els (records float els)"
    using Cons.IH Cons.prems by simp
  then show ?case
    using records_Cons [of float el els] r c x y by simp
qed

lemma tail_two_points:
  "filter is_point_element (tl (iter two_points)) =
     [point_xml ''A'' [Element ''show'' [(''object'', ''true'')] [], coords_xml ''1.5'' ''-2.0''],
      point_xml ''B'' [coords_xml ''0'' ''0'']]"
  by (simp add: example_defs is_point_element_def)

lemma run_two_points:
  "fst (extract_points_from_ggb float_ascii str_example (world_with two_points)
      ''dir/calculus.ggb'' None) =
     Inr [\<lparr>point_name = ''A'', point_x = Finite 15 (- 1), point_y = Finite (- 20) (- 1)\<rparr>,
          \<lparr>point_name = ''B'', point_x = Finite 0 0, point_y = Finite 0 0\<rparr>]"
  by (simp add: extract_points_from_ggb_def loop_body_def example_defs selection_defs
      float_ascii_examples Let_def)

text \<open>
  Claim C1, as the specification has it, fails on two documents. In the first the root
  is the one point element, with numeric coordinates, and the result is empty. In the
  second the one point element has a \<^verbatim>\<open>coords\<close> child with numeric \<^verbatim>\<open>x\<close> and \<^verbatim>\<open>y\<close>, but
  after a \<^verbatim>\<open>coords\<close> child without attributes, and the result is empty.
\<close>

theorem numeric_points_counterexample:
  "point_elements root_point = [root_point] \<and>
   list_all (has_numeric_coords float_ascii) (point_elements root_point) \<and>
   fst (extract_points_from_ggb float_ascii str_example (world_with root_point)
      ''dir/calculus.ggb'' None) = Inr [] \<and>
   point_elements second_coords =
     [point_xml ''F'' [Element ''coords'' [] [], coords_xml ''1'' ''2'']] \<and>
   list_all (has_numeric_coords float_ascii) (point_elements second_coords) \<and>
   fst (extract_points_from_ggb float_ascii str_example (world_with second_coords)
      ''dir/calculus.ggb'' None) = Inr []"
  by (simp add: extract_points_from_ggb_def loop_body_def example_defs selection_defs
      float_ascii_examples Let_def point_elements_def is_point_element_def
      has_numeric_coords_def numeric_coords_def)

text \<open>
  Claim C1, amended. When every point element below the root has a first \<^verbatim>\<open>coords\<close>
  child with non-empty \<^verbatim>\<open>x\<close> and \<^verbatim>\<open>y\<close> that \<^verbatim>\<open>float\<close> accepts, the call returns as many
  records as there are point elements below the root, and the records stand in document
  order: the record at each position has the label and the coordinates of the element
  at that position.
\<close>

theorem numeric_points_all_extracted:
  assumes "files w p = Some (Archive z)" and "z ''geogebra.xml'' = Some (Document root)"
    and "\<forall>el \<in> set (filter is_point_element (tl (iter root))).
           \<exists>coords. elem_find el ''coords'' = Some coords \<and> numeric_coords float coords"
  shows "\<exists>points w'.
     extract_points_from_ggb float str w p oarg = (Inr points, w') \<and>
     length points = length (filter is_point_element (tl (iter root))) \<and>
     list_all2
       (\<lambda>el pt. point_name pt = elem_get el ''label'' [] \<and>
          (\<exists>coords. elem_find el ''coords'' = Some coords \<and>
             float (elem_get coords ''x'' []) = Some (point_x pt) \<and>
             float (elem_get coords ''y'' []) = Some (point_y pt)))
       (filter is_point_element (tl (iter root))) points"
proof -
  let ?els = "filter is_point_element (tl (iter root))"
  have sel: "findall_points root = ?els" by (rule findall_points_eq)
  obtain w' where run:
    "extract_points_from_ggb float str w p oarg = (Inr (records float ?els), w')"
    using extract_document [OF assms(1) assms(2), of float str oarg]
    by (cases "records float ?els = []") (simp_all add: Let_def sel)
  have rel: "list_all2
       (\<lambda>el pt. point_name pt = elem_get el ''label'' [] \<and>
          (\<exists>coords. elem_find el ''coords'' = Some coords \<and>
             float (elem_get coords ''x'' []) = Some (point_x pt) \<and>
             float (elem_get coords ''y'' []) = Some (point_y pt)))
       ?els (records float ?els)"
    using assms(3) by (rule records_of_numeric)
  then have "length (records float ?els) = length ?els"
    by (simp add: list_all2_lengthD)
  then show ?thesis using run rel by blast
qed

theorem numeric_points_all_extracted_witness:
  "files (world_with two_points) ''dir/calculus.ggb'' =
     Some (Archive [''geogebra.xml'' \<mapsto> Document two_points]) \<and>
   list_all (\<lambda>el. case elem_find el ''coords'' of None \<Rightarrow> False
                   | Some coords \<Rightarrow> numeric_coords float_ascii coords)
     (filter is_point_element (tl (iter two_points))) \<and>
   length (filter is_point_element (tl (iter two_points))) = 2 \<and>
   fst (extract_points_from_ggb float_ascii str_example (world_with two_points)
      ''dir/calculus.ggb'' None) =
     Inr [\<lparr>point_name = ''A'', point_x = Finite 15 (- 1), point_y = Finite (- 20) (- 1)\<rparr>,
          \<lparr>point_name = ''B'', point_x = Finite 0 0, point_y = Finite 0 0\<rparr>]"
  using numeric_points_all_extracted [of "world_with two_points" "''dir/calculus.ggb''"
      "[''geogebra.xml'' \<mapsto> Document two_points]" two_points float_ascii str_example None]
    tail_two_points run_two_points
  by (simp add: world_with_def point_xml_def coords_xml_def elem_find_def elem_get_def
      numeric_coords_def float_ascii_examples)

section \<open>The output file\<close>

lemma write_points_rows:
  "write_points str points csvfile =
     csvfile @ concat (map (\<lambda>pt. join_fields (dict_to_list str pt) @ lineterminator) points)"
  by (induction points arbitrary: csvfile) (simp_all add: writerow_def)

lemma header_row: "join_fields fieldnames = point_name_key @ '',x,y''"
  by (simp add: fieldnames_def point_name_key_def join_append_def delimiter_def quotechar_def
      lineterminator_def)

lemma csv_file_rows:
  "csv_file str points =
     bom @ point_name_key @ '',x,y'' @ lineterminator @
     concat (map (\<lambda>pt. join_fields (dict_to_list str pt) @ lineterminator) points)"
  by (simp add: csv_file_def write_points_rows writeheader_def writerow_def header_row)

lemma extract_returns:
  assumes "extract_points_from_ggb float str w p oarg = (Inr points, w')"
  shows "\<exists>z root. files w p = Some (Archive z) \<and> z ''geogebra.xml'' = Some (Document root)"
  using assms
  by (auto simp add: extract_points_from_ggb_def Let_def
      split: option.splits content.splits member.splits)


section \<open>Where the default output path lies\<close>

lemma split_sep_not_Nil: "split_sep s \<noteq> []"
  by (induction s) (simp_all split: list.splits)

lemma split_sep_no_slash: "CHR ''/'' \<notin> set b \<Longrightarrow> split_sep b = [b]"
  by (induction b) auto

lemma split_sep_append:
  "split_sep (xs @ CHR ''/'' # ys) = split_sep xs @ split_sep ys"
proof (induction xs)
  case Nil
  show ?case by simp
next
  case (Cons c xs)
  obtain piece pieces where s: "split_sep xs = piece # pieces"
    using split_sep_not_Nil [of xs] by (cases "split_sep xs") auto
  show ?case using Cons.IH s by simp
qed

lemma path_name_base:
  assumes "CHR ''/'' \<notin> set base" and "base \<noteq> []" and "base \<noteq> ''.''"
    and "pre = [] \<or> (\<exists>d. pre = d @ ''/'')"
  shows "path_name (pre @ base) = base"
proof -
  from assms(4) have "\<exists>ps. split_sep (pre @ base) = ps @ [base]"
  proof
    assume "pre = []"
    then have "split_sep (pre @ base) = [] @ [base]"
      using assms(1) by (simp add: split_sep_no_slash)
    then show ?thesis by blast
  next
    assume "\<exists>d. pre = d @ ''/''"
    then obtain d where "pre = d @ ''/''" by blast
    then have "split_sep (pre @ base) = split_sep d @ [base]"
      using assms(1) split_sep_append [of d base] by (simp add: split_sep_no_slash)
    then show ?thesis by blast
  qed
  then obtain ps where ps: "split_sep (pre @ base) = ps @ [base]" by blast
  let ?parts = "filter (\<lambda>x. x \<noteq> [] \<and> x \<noteq> ''.'') (split_sep (pre @ base))"
  have parts: "?parts = filter (\<lambda>x. x \<noteq> [] \<and> x \<noteq> ''.'') ps @ [base]"
    using assms(2,3) by (simp add: ps)
  then have "?parts \<noteq> []" and "last ?parts = base" by simp_all
  then show ?thesis
    by (cases ?parts) (simp_all add: path_name_def)
qed

lemma takeWhile_until: "c \<notin> set zs \<Longrightarrow> takeWhile (\<lambda>d. d \<noteq> c) (zs @ c # ws) = zs"
  by (induction zs) auto

lemma rfind_last: "c \<notin> set ys \<Longrightarrow> rfind c (xs @ c # ys) = int (length xs)"
proof -
  assume a: "c \<notin> set ys"
  have "takeWhile (\<lambda>d. d \<noteq> c) (rev ys @ c # rev xs) = rev ys"
    using a by (simp add: takeWhile_until)
  then show ?thesis by (simp add: rfind_def)
qed

lemma rfind_absent: "c \<notin> set s \<Longrightarrow> rfind c s = - 1"
  by (simp add: rfind_def)

lemma stem_with_suffix:
  assumes "path_name p = nm @ ''.'' @ ext" and "nm \<noteq> []" and "ext \<noteq> []"
    and "CHR ''.'' \<notin> set ext"
  shows "stem p = nm"
  using assms rfind_last [of "CHR ''.''" ext nm]
  by (cases ext) (simp_all add: stem_def Let_def)

lemma stem_without_dot:
  assumes "path_name p = nm" and "CHR ''.'' \<notin> set nm"
  shows "stem p = nm"
  using assms by (simp add: stem_def Let_def rfind_absent)

lemma dirname_join:
  assumes "CHR ''/'' \<notin> set base"
    and "pre = [] \<or> (\<exists>d. pre = d @ ''/'' \<and> (d = [] \<or> last d \<noteq> CHR ''/''))"
    and "b \<noteq> []" and "hd b \<noteq> CHR ''/''"
  shows "join (dirname (pre @ base)) b = pre @ b"
  using assms(2)
proof
  assume e: "pre = []"
  then have "dirname (pre @ base) = []"
    using assms(1) by (simp add: dirname_def rfind_absent)
  then show ?thesis using e assms(3,4) by (simp add: join_def)
next
  assume "\<exists>d. pre = d @ ''/'' \<and> (d = [] \<or> last d \<noteq> CHR ''/'')"
  then obtain d where pre: "pre = d @ ''/''" and d: "d = [] \<or> last d \<noteq> CHR ''/''" by blast
  have head: "take (nat (rfind CHR ''/'' (pre @ base) + 1)) (pre @ base) = d @ ''/''"
    using rfind_last [of "CHR ''/''" base d] assms(1) pre by (simp add: nat_add_distrib)
  have dn: "dirname (pre @ base) =
      (if d @ ''/'' \<noteq> [] \<and> d @ ''/'' \<noteq> replicate (length (d @ ''/'')) CHR ''/''
       then rstrip CHR ''/'' (d @ ''/'') else d @ ''/'')"
    unfolding dirname_def Let_def head by (rule refl)
  show ?thesis
  proof (cases "d = []")
    case True
    then have "dirname (pre @ base) = ''/''"
      using dn by simp
    then show ?thesis using True pre assms(3,4) by (simp add: join_def)
  next
    case False
    then have l: "last d \<noteq> CHR ''/''" using d by simp
    have "d @ ''/'' \<noteq> replicate (length (d @ ''/'')) CHR ''/''"
    proof
      assume "d @ ''/'' = replicate (length (d @ ''/'')) CHR ''/''"
      then have "set (d @ ''/'') \<subseteq> {CHR ''/''}"
        by (metis set_replicate_conv_if empty_subsetI subset_refl)
      moreover have "last d \<in> set d" using False by (rule last_in_set)
      ultimately have "last d = CHR ''/''" by auto
      then show False using l by simp
    qed
    moreover have "rstrip CHR ''/'' (d @ ''/'') = d"
    proof -
      have "rev d \<noteq> []" and "hd (rev d) \<noteq> CHR ''/''"
        using False l by (simp_all add: hd_rev)
      then have "dropWhile (\<lambda>c. c = CHR ''/'') (rev d) = rev d"
        by (cases "rev d") simp_all
      then show ?thesis by (simp add: rstrip_def)
    qed
    ultimately have "dirname (pre @ base) = d"
      using dn by simp
    then show ?thesis using False l pre assms(3,4) by (simp add: join_def)
  qed
qed

text \<open>
  Claim C8. Let the archive path be a directory prefix (empty, or ending in one slash),
  a name and, possibly, an extension (the part from the last dot on). When the output
  path is omitted, the output path is the prefix, the name and \<^verbatim>\<open>_points.csv\<close>: the file
  lies in the directory of the archive, and this is where the points are written.
\<close>

theorem default_output_beside_archive:
  assumes "ggb_file_path = pre @ nm @ sfx"
    and "pre = [] \<or> (\<exists>d. pre = d @ ''/'' \<and> (d = [] \<or> last d \<noteq> CHR ''/''))"
    and "nm \<noteq> []" and "CHR ''/'' \<notin> set nm"
    and "sfx = [] \<and> CHR ''.'' \<notin> set nm \<or>
         (\<exists>ext. sfx = ''.'' @ ext \<and> ext \<noteq> [] \<and> CHR ''/'' \<notin> set ext \<and> CHR ''.'' \<notin> set ext)"
    and "extract_points_from_ggb float str w ggb_file_path None = (Inr points, w')"
    and "points \<noteq> []"
  shows "default_output_path ggb_file_path = pre @ nm @ ''_points.csv'' \<and>
         files w' = (files w)(pre @ nm @ ''_points.csv'' \<mapsto> Plain (csv_file str points))"
proof -
  let ?base = "nm @ sfx"
  have slash: "CHR ''/'' \<notin> set ?base" using assms(4,5) by auto
  have "?base \<noteq> ''.''"
  proof
    assume e: "?base = ''.''"
    from assms(5) show False
    proof
      assume "sfx = [] \<and> CHR ''.'' \<notin> set nm"
      with e show False by auto
    next
      assume "\<exists>ext. sfx = ''.'' @ ext \<and> ext \<noteq> [] \<and> CHR ''/'' \<notin> set ext \<and> CHR ''.'' \<notin> set ext"
      then obtain ext where "sfx = ''.'' @ ext" by blast
      with e assms(3) show False by (cases nm) simp_all
    qed
  qed
  moreover have "?base \<noteq> []" using assms(3) by simp
  moreover have "pre = [] \<or> (\<exists>d. pre = d @ ''/'')" using assms(2) by blast
  ultimately have name: "path_name ggb_file_path = ?base"
    using path_name_base [OF slash, of pre] assms(1) by simp
  have st: "stem ggb_file_path = nm"
    using assms(5)
  proof
    assume "sfx = [] \<and> CHR ''.'' \<notin> set nm"
    then show ?thesis using name stem_without_dot [of ggb_file_path nm] by simp
  next
    assume "\<exists>ext. sfx = ''.'' @ ext \<and> ext \<noteq> [] \<and> CHR ''/'' \<notin> set ext \<and> CHR ''.'' \<notin> set ext"
    then obtain ext where "sfx = ''.'' @ ext" and "ext \<noteq> []" and "CHR ''.'' \<notin> set ext"
      by blast
    then show ?thesis using name assms(3) stem_with_suffix [of ggb_file_path nm ext] by simp
  qed
  have "hd (nm @ ''_points.csv'') \<noteq> CHR ''/''"
    using assms(3,4) by (cases nm) auto
  then have "join (dirname (pre @ nm @ sfx)) (nm @ ''_points.csv'') = pre @ nm @ ''_points.csv''"
    using dirname_join [OF slash assms(2), of "nm @ ''_points.csv''"] assms(3) by simp
  moreover have "default_output_path ggb_file_path =
      join (dirname ggb_file_path) (nm @ ''_points.csv'')"
    by (simp add: default_output_path_def Let_def st)
  ultimately have path: "default_output_path ggb_file_path = pre @ nm @ ''_points.csv''"
    by (simp add: assms(1))
  obtain z root where a: "files w ggb_file_path = Some (Archive z)"
    and d: "z ''geogebra.xml'' = Some (Document root)"
    using extract_returns [OF assms(6)] by blast
  have "files w' = (files w)(default_output_path ggb_file_path \<mapsto> Plain (csv_file str points))"
    using assms(6,7) extract_document [OF a d, of float str None]
    by (auto simp add: Let_def split: if_splits)
  then show ?thesis using path by simp
qed

theorem default_output_beside_archive_witness:
  "''dir/calculus.ggb'' = ''dir/'' @ ''calculus'' @ ''.ggb'' \<and>
   fst (extract_points_from_ggb float_ascii str_example (world_with two_points)
      ''dir/calculus.ggb'' None) =
     Inr [\<lparr>point_name = ''A'', point_x = Finite 15 (- 1), point_y = Finite (- 20) (- 1)\<rparr>,
          \<lparr>point_name = ''B'', point_x = Finite 0 0, point_y = Finite 0 0\<rparr>] \<and>
   default_output_path ''dir/calculus.ggb'' = ''dir/calculus_points.csv'' \<and>
   files (snd (extract_points_from_ggb float_ascii str_example (world_with two_points)
      ''dir/calculus.ggb'' None)) =
     (files (world_with two_points))(''dir/calculus_points.csv'' \<mapsto>
        Plain (csv_file str_example
          [\<lparr>point_name = ''A'', point_x = Finite 15 (- 1), point_y = Finite (- 20) (- 1)\<rparr>,
           \<lparr>point_name = ''B'', point_x = Finite 0 0, point_y = Finite 0 0\<rparr>]))"
  using default_output_beside_archive [of "''dir/calculus.ggb''" "''dir/''" "''calculus''"
      "''.ggb''" float_ascii str_example "world_with two_points"
      "[\<lparr>point_name = ''A'', point_x = Finite 15 (- 1), point_y = Finite (- 20) (- 1)\<rparr>,
        \<lparr>point_name = ''B'', point_x = Finite 0 0, point_y = Finite 0 0\<rparr>]"
      "snd (extract_points_from_ggb float_ascii str_example (world_with two_points)
         ''dir/calculus.ggb'' None)"]
    run_two_points
  by (simp add: prod_eq_iff)

section \<open>Reading the output back\<close>

lemma join_append_data_Cons:
  "fst (join_append_data (c # cs)) =
     (if c = quotechar then [quotechar, quotechar] else [c]) @ fst (join_append_data cs)"
  by (simp add: split_def Let_def)

lemma join_append_data_quoted:
  "snd (join_append_data f) =
     (\<exists>c \<in> set f. c = delimiter \<or> c = quotechar \<or> c \<in> set lineterminator)"
  by (induction f) (auto simp add: split_def Let_def)

lemma join_append_data_plain:
  "\<not> snd (join_append_data f) \<Longrightarrow> fst (join_append_data f) = f"
  by (induction f) (auto simp add: split_def Let_def split: if_splits)

lemma read_unquoted:
  assumes "\<forall>c \<in> set f. c \<noteq> delimiter \<and> c \<noteq> quotechar \<and> c \<notin> set lineterminator"
  shows "csv_read Unquoted field row rows (f @ rest) = csv_read Unquoted (field @ f) row rows rest"
  using assms
proof (induction f arbitrary: field)
  case Nil
  show ?case by simp
next
  case (Cons c cs)
  then have "c \<noteq> delimiter" "c \<noteq> quotechar" "c \<noteq> CR" "c \<noteq> LF"
    by (simp_all add: lineterminator_def CR_def LF_def)
  then show ?case using Cons.IH [of "field @ [c]"] Cons.prems by simp
qed

lemma read_quoted:
  "csv_read Quoted field row rows (fst (join_append_data f) @ quotechar # rest) =
     csv_read QuoteSeen (field @ f) row rows rest"
proof (induction f arbitrary: field)
  case Nil
  show ?case by simp
next
  case (Cons c cs)
  show ?case
    using Cons.IH [of "field @ [c]"]
    by (cases "c = quotechar") (simp_all add: join_append_data_Cons del: join_append_data.simps)
qed

lemma read_field:
  assumes "m = RecordStart \<or> m = FieldStart" and "t = delimiter \<or> t = CR"
  shows "csv_read m field row rows (join_append f @ t # rest) =
     csv_read (if t = delimiter then FieldStart else CrSeen) [] (row @ [f]) rows rest"
proof (cases "snd (join_append_data f)")
  case True
  have t: "t \<noteq> quotechar"
    using assms(2) by (auto simp add: delimiter_def quotechar_def CR_def)
  have "join_append f @ t # rest =
      quotechar # fst (join_append_data f) @ quotechar # t # rest"
    using True by (simp add: join_append_def split_def)
  then have "csv_read m field row rows (join_append f @ t # rest) =
      csv_read QuoteSeen f row rows (t # rest)"
    using assms(1) read_quoted [of "[]" row rows f "t # rest"] by auto
  then show ?thesis using t assms(2) by (auto simp add: delimiter_def CR_def)
next
  case False
  then have plain: "join_append f = f"
    by (simp add: join_append_def split_def join_append_data_plain)
  have ok: "\<forall>c \<in> set f. c \<noteq> delimiter \<and> c \<noteq> quotechar \<and> c \<notin> set lineterminator"
    using False by (auto simp add: join_append_data_quoted)
  show ?thesis
  proof (cases f)
    case Nil
    then show ?thesis
      using plain assms by (auto simp add: delimiter_def quotechar_def CR_def LF_def)
  next
    case (Cons c cs)
    then have c: "c \<noteq> delimiter" "c \<noteq> quotechar" "c \<noteq> CR" "c \<noteq> LF"
      using ok by (simp_all add: lineterminator_def CR_def LF_def)
    have cs: "\<forall>c \<in> set cs. c \<noteq> delimiter \<and> c \<noteq> quotechar \<and> c \<notin> set lineterminator"
      using ok Cons by simp
    have "csv_read m field row rows (join_append f @ t # rest) =
        csv_read Unquoted [c] row rows (cs @ t # rest)"
      using plain Cons c assms(1) by auto
    also have "\<dots> = csv_read Unquoted f row rows (t # rest)"
      using read_unquoted [OF cs, of "[c]" row rows "t # rest"] Cons by simp
    finally show ?thesis
      using assms(2) by (auto simp add: delimiter_def quotechar_def CR_def LF_def)
  qed
qed

lemma read_row:
  assumes "m = RecordStart \<or> m = FieldStart" and "fs \<noteq> []"
  shows "csv_read m field row rows (join_fields fs @ lineterminator @ rest) =
     csv_read RecordStart [] [] (rows @ [row @ fs]) rest"
  using assms
proof (induction fs arbitrary: m field row rule: join_fields.induct)
  case 1
  then show ?case by simp
next
  case (2 f)
  have "csv_read m field row rows (join_append f @ CR # LF # rest) =
      csv_read CrSeen [] (row @ [f]) rows (LF # rest)"
    using read_field [of m CR field row rows f "LF # rest"] "2.prems"(1)
    by (simp add: delimiter_def CR_def)
  then show ?case by (simp add: lineterminator_def CR_def LF_def)
next
  case (3 f g fs)
  have "csv_read m field row rows (join_append f @ delimiter # join_fields (g # fs) @ lineterminator @ rest) =
      csv_read FieldStart [] (row @ [f]) rows (join_fields (g # fs) @ lineterminator @ rest)"
    using read_field [of m delimiter field row rows f] "3.prems"(1) by simp
  also have "\<dots> = csv_read RecordStart [] [] (rows @ [(row @ [f]) @ g # fs]) rest"
    using "3.IH" [of FieldStart "[]" "row @ [f]"] by simp
  finally show ?case by simp
qed

lemma read_rows:
  assumes "\<forall>r \<in> set rs. r \<noteq> []"
  shows "csv_read RecordStart [] [] rows (concat (map (\<lambda>r. join_fields r @ lineterminator) rs)) =
     Some (rows @ rs)"
  using assms
proof (induction rs arbitrary: rows)
  case Nil
  show ?case by simp
next
  case (Cons r rs)
  have "csv_read RecordStart [] [] rows
        (join_fields r @ lineterminator @ concat (map (\<lambda>r. join_fields r @ lineterminator) rs)) =
      csv_read RecordStart [] [] (rows @ [r])
        (concat (map (\<lambda>r. join_fields r @ lineterminator) rs))"
    using read_row [of RecordStart r "[]" "[]" rows] Cons.prems by simp
  then show ?case using Cons.IH [of "rows @ [r]"] Cons.prems by simp
qed

lemma csv_file_as_rows:
  "csv_file str points =
     bom @ concat (map (\<lambda>r. join_fields r @ lineterminator)
       (fieldnames # map (dict_to_list str) points))"
  by (simp add: csv_file_rows header_row comp_def)

lemma csv_file_reads_back:
  "read_csv_file (csv_file str points) = Some (fieldnames # map (dict_to_list str) points)"
proof -
  have "decode_utf_8_sig (csv_file str points) =
      concat (map (\<lambda>r. join_fields r @ lineterminator)
        (fieldnames # map (dict_to_list str) points))"
    unfolding csv_file_as_rows by (simp add: decode_utf_8_sig_def bom_def)
  moreover have "\<forall>r \<in> set (fieldnames # map (dict_to_list str) points). r \<noteq> []"
    by (auto simp add: fieldnames_def dict_to_list_def)
  ultimately show ?thesis
    using read_rows [of "fieldnames # map (dict_to_list str) points" "[]"]
    by (simp add: read_csv_file_def)
qed






lemma those_rows:
  assumes "\<forall>pt \<in> set points. float (str (point_x pt)) = Some (point_x pt) \<and>
             float (str (point_y pt)) = Some (point_y pt)"
  shows "those (map (row_to_point float) (map (dict_to_list str) points)) = Some points"
  using assms
  by (induction points) (simp_all add: row_to_point_def dict_to_list_def)

lemma float_ascii_of_str:
  "float_ascii (str_example (Finite 15 (- 1))) = Some (Finite 15 (- 1))"
  "float_ascii (str_example (Finite (- 20) (- 1))) = Some (Finite (- 20) (- 1))"
  "float_ascii (str_example PosInf) = Some PosInf"
  "float_ascii (str_example NegInf) = Some NegInf"
  by code_simp+

text \<open>
  Claim C9. Let \<^verbatim>\<open>float\<close> give back every coordinate of the points from the text that
  \<^verbatim>\<open>str\<close> writes for it; this is the floating-point representation the claim sets
  aside. Then reading back the file written for the points gives the header row and one
  row for each point, and the records read from these rows are the points themselves,
  in order: labels, \<^verbatim>\<open>x\<close> and \<^verbatim>\<open>y\<close> are equal to the originals.
\<close>

theorem csv_round_trip:
  assumes "\<forall>pt \<in> set points. float (str (point_x pt)) = Some (point_x pt) \<and>
             float (str (point_y pt)) = Some (point_y pt)"
  shows "read_csv_file (csv_file str points) =
           Some (fieldnames # map (dict_to_list str) points) \<and>
         read_points float (csv_file str points) = Some points"
  using those_rows [OF assms] csv_file_reads_back [of str points]
  by (simp add: read_points_def)

theorem csv_round_trip_witness:
  "list_all (\<lambda>pt. float_ascii (str_example (point_x pt)) = Some (point_x pt) \<and>
                  float_ascii (str_example (point_y pt)) = Some (point_y pt))
     [\<lparr>point_name = awkward_label, point_x = Finite 15 (- 1), point_y = Finite (- 20) (- 1)\<rparr>,
      \<lparr>point_name = [], point_x = PosInf, point_y = NegInf\<rparr>] \<and>
   read_csv_file (csv_file str_example
     [\<lparr>point_name = awkward_label, point_x = Finite 15 (- 1), point_y = Finite (- 20) (- 1)\<rparr>,
      \<lparr>point_name = [], point_x = PosInf, point_y = NegInf\<rparr>]) =
     Some [[point_name_key, ''x'', ''y''], [awkward_label, ''1.5'', ''-2.0''],
           [[], ''inf'', ''-inf'']] \<and>
   read_points float_ascii (csv_file str_example
     [\<lparr>point_name = awkward_label, point_x = Finite 15 (- 1), point_y = Finite (- 20) (- 1)\<rparr>,
      \<lparr>point_name = [], point_x = PosInf, point_y = NegInf\<rparr>]) =
     Some [\<lparr>point_name = awkward_label, point_x = Finite 15 (- 1), point_y = Finite (- 20) (- 1)\<rparr>,
           \<lparr>point_name = [], point_x = PosInf, point_y = NegInf\<rparr>]"
  using csv_round_trip [of
     "[\<lparr>point_name = awkward_label, point_x = Finite 15 (- 1), point_y = Finite (- 20) (- 1)\<rparr>,
       \<lparr>point_name = [], point_x = PosInf, point_y = NegInf\<rparr>]" float_ascii str_example]
    float_ascii_of_str
  by (simp add: fieldnames_def dict_to_list_def str_example_def)

end
